theory Spec2Isabelle
  imports Main "HOL-Library.Word"
begin

section \<open>Python values and exceptions\<close>

text \<open>
  \<^verbatim>\<open>text_to_speech\<close> tests its argument with \<^verbatim>\<open>not text\<close>, which Python defines for
  every value, so the argument is a Python value and not only a string. The values
  below are the ones with a truth value of their own that a caller can pass:
  \<^verbatim>\<open>None\<close>, booleans, integers, strings and lists.
\<close>

datatype pyval =
    PyNone
  | PyBool bool
  | PyInt int
  | PyStr string
  | PyList "pyval list"

text \<open>Python's truth value: \<^verbatim>\<open>not v\<close> is the negation of \<open>truthy v\<close>.\<close>

fun truthy :: "pyval \<Rightarrow> bool" where
  "truthy PyNone = False"
| "truthy (PyBool b) = b"
| "truthy (PyInt n) = (n \<noteq> 0)"
| "truthy (PyStr s) = (s \<noteq> [])"
| "truthy (PyList vs) = (vs \<noteq> [])"

text \<open>
  Exceptions: \<^verbatim>\<open>ValueError\<close> with its message, \<^verbatim>\<open>OSError\<close> with the path that could
  not be opened, and any other exception as its class name and message.
\<close>

datatype exn =
    ValueError string
  | OSError string
  | OtherError string string

section \<open>The world outside the program\<close>

type_synonym byte = "8 word"

text \<open>
  What the program does to the outside is recorded in the order it happens: a line
  printed on standard output, a request to the synthesis engine with its text and
  language code, and the opening of a file for writing.
\<close>

datatype event =
    Printed string
  | Synthesize pyval string
  | Opened string

record world =
  files :: "string \<rightharpoonup> byte list"
  writable :: "string \<Rightarrow> bool"
  trace :: "event list"

definition print :: "string \<Rightarrow> world \<Rightarrow> world" where
  "print line w = w\<lparr>trace := trace w @ [Printed line]\<rparr>"

section \<open>The external synthesis engine\<close>

text \<open>
  The package \<^verbatim>\<open>gtts\<close> is a third-party library and not part of the repository. The
  engine is therefore a parameter, a function of the request as in the spec's
  contract \<^verbatim>\<open>synthesize(text, languageCode) -> audioBytes\<close>: for a text and a language
  code it either refuses the request with an exception, or announces an audio
  stream. A stream is either complete, or breaks off with an exception after some
  bytes (the network fails half way).
\<close>

datatype synthesis =
    Audio "byte list"
  | Broken "byte list" exn

type_synonym engine = "pyval \<Rightarrow> string \<Rightarrow> exn + synthesis"

text \<open>
  Modelled from the spec: the constructor \<^verbatim>\<open>gTTS(text=..., lang=...)\<close> of the missing
  package \<^verbatim>\<open>gtts\<close>. The spec describes the engine as the opaque capability
  \<^verbatim>\<open>synthesize(text, languageCode) -> audioBytes\<close>, "invoked with the input text and a
  fixed language code"; the invocation is recorded in the trace.
\<close>

definition gTTS :: "engine \<Rightarrow> pyval \<Rightarrow> string \<Rightarrow> world \<Rightarrow> (exn + synthesis) \<times> world" where
  "gTTS E text lang w = (E text lang, w\<lparr>trace := trace w @ [Synthesize text lang]\<rparr>)"

text \<open>
  Modelled from the spec: the method \<^verbatim>\<open>save(path)\<close> of the missing package \<^verbatim>\<open>gtts\<close>.
  The spec gives it "one write operation (create-or-overwrite) at the given path",
  "overwriting any existing file at that path", with "no partial-write protection":
  a path that cannot be opened raises and leaves the files alone; otherwise the file
  is created or truncated and receives the stream, and a stream that breaks off
  leaves its bytes behind and raises the engine's exception.
\<close>

definition save :: "synthesis \<Rightarrow> string \<Rightarrow> world \<Rightarrow> (exn + unit) \<times> world" where
  "save tts savefile w =
     (if \<not> writable w savefile then (Inl (OSError savefile), w)
      else
        (case tts of
           Audio bs \<Rightarrow>
             (Inr (), w\<lparr>files := (files w)(savefile \<mapsto> bs),
                       trace := trace w @ [Opened savefile]\<rparr>)
         | Broken bs e \<Rightarrow>
             (Inl e, w\<lparr>files := (files w)(savefile \<mapsto> bs),
                      trace := trace w @ [Opened savefile]\<rparr>)))"

section \<open>The Converter: \<^verbatim>\<open>app.py\<close>\<close>

text \<open>
  \<^verbatim>\<open>def text_to_speech(text, output_filename='output.mp3')\<close>. The optional parameter
  is an \<open>option\<close>: \<open>None\<close> is a call that leaves it out.
\<close>

definition text_to_speech ::
    "engine \<Rightarrow> pyval \<Rightarrow> string option \<Rightarrow> world \<Rightarrow> (exn + pyval) \<times> world" where
  "text_to_speech E text output_arg w =
     (let output_filename = (case output_arg of None \<Rightarrow> ''output.mp3'' | Some p \<Rightarrow> p) in
      if \<not> truthy text then (Inl (ValueError ''Text cannot be empty''), w)
      else
        (case gTTS E text ''en'' w of
           (Inl e, w1) \<Rightarrow> (Inl e, w1)
         | (Inr tts, w1) \<Rightarrow>
             (case save tts output_filename w1 of
                (Inl e, w2) \<Rightarrow> (Inl e, w2)
              | (Inr u, w2) \<Rightarrow> (Inr (PyBool True), w2))))"

text \<open>The requests made to the engine, in order, as the trace records them.\<close>

fun requests :: "event list \<Rightarrow> (pyval \<times> string) list" where
  "requests [] = []"
| "requests (Synthesize t l # es) = (t, l) # requests es"
| "requests (Printed line # es) = requests es"
| "requests (Opened p # es) = requests es"

section \<open>The command line: \<^verbatim>\<open>cli.py\<close>\<close>

text \<open>
  \<^verbatim>\<open>argparse\<close> belongs to Python's standard library. A command line it accepts
  supplies the positional \<^verbatim>\<open>text\<close> and, optionally, a value for \<^verbatim>\<open>-o\<close>/\<^verbatim>\<open>--output\<close>;
  one it rejects (or \<^verbatim>\<open>-h\<close>) ends the process inside \<^verbatim>\<open>parse_args\<close> with an exit
  status of its own, before \<^verbatim>\<open>main\<close> prints anything.
\<close>

datatype cmdline =
    Accepted string "string option"
  | Rejected nat

record namespace =
  arg_text :: string
  arg_output :: string

definition parse_args :: "cmdline \<Rightarrow> nat + namespace" where
  "parse_args argv =
     (case argv of
        Rejected code \<Rightarrow> Inl code
      | Accepted t out \<Rightarrow>
          Inr \<lparr>arg_text = t,
               arg_output = (case out of None \<Rightarrow> ''output.mp3'' | Some v \<Rightarrow> v)\<rparr>)"

text \<open>
  How a run ends: \<^verbatim>\<open>main\<close> returns, an exception leaves it uncaught, or
  \<^verbatim>\<open>argparse\<close> exits.
\<close>

datatype outcome =
    Returned
  | Uncaught exn
  | SystemExit nat

text \<open>
  The two f-strings of \<^verbatim>\<open>main\<close> put the value between single quotes (character
  \<open>0x27\<close>): \<^verbatim>\<open>f"Converting text to speech: '{args.text}'"\<close> and
  \<^verbatim>\<open>f"Speech saved to '{args.output}'"\<close>.
\<close>

definition start_message :: "string \<Rightarrow> string" where
  "start_message t = ''Converting text to speech: '' @ [CHR 0x27] @ t @ [CHR 0x27]"

definition saved_message :: "string \<Rightarrow> string" where
  "saved_message out = ''Speech saved to '' @ [CHR 0x27] @ out @ [CHR 0x27]"

text \<open>
  \<^verbatim>\<open>main\<close> has no exception handler: an exception of \<^verbatim>\<open>text_to_speech\<close> leaves
  it before the second \<^verbatim>\<open>print\<close>.
\<close>

definition main :: "engine \<Rightarrow> cmdline \<Rightarrow> world \<Rightarrow> outcome \<times> world" where
  "main E argv w =
     (case parse_args argv of
        Inl code \<Rightarrow> (SystemExit code, w)
      | Inr args \<Rightarrow>
          (let w1 = print (start_message (arg_text args)) w in
           case text_to_speech E (PyStr (arg_text args)) (Some (arg_output args)) w1 of
             (Inl e, w2) \<Rightarrow> (Uncaught e, w2)
           | (Inr r, w2) \<Rightarrow>
               (Returned, print (saved_message (arg_output args)) w2)))"

text \<open>
  The script runs \<^verbatim>\<open>main()\<close> at top level: the interpreter ends with status 0 when it
  returns, with status 1 after printing the traceback of an uncaught exception, and
  with the status \<^verbatim>\<open>argparse\<close> chose when it exits.
\<close>

definition exit_status :: "outcome \<Rightarrow> nat" where
  "exit_status t = (case t of Returned \<Rightarrow> 0 | Uncaught e \<Rightarrow> 1 | SystemExit code \<Rightarrow> code)"

section \<open>A sample engine and a sample world\<close>

text \<open>
  An engine that speaks two texts, loses the connection on a third and refuses every
  other request, and a world with no files where every path but the root directory
  can be written.
\<close>

definition sample_engine :: engine where
  "sample_engine text lang =
     (if lang \<noteq> ''en'' then Inl (ValueError ''Language not supported'')
      else if text = PyStr ''hi'' then Inr (Audio [0xFF, 0xF3, 0x44, 0xC4])
      else if text = PyStr '' '' then Inl (OtherError ''AssertionError'' ''No text to send to TTS API'')
      else if text = PyStr ''cut'' then Inr (Broken [0xFF] (OtherError ''gTTSError'' ''Connection error''))
      else Inl (OtherError ''gTTSError'' ''429 (Too Many Requests)''))"

definition sample_world :: world where
  "sample_world = \<lparr>files = Map.empty, writable = (\<lambda>p. p \<noteq> ''/''), trace = []\<rparr>"

section \<open>Auxiliary facts\<close>

lemma requests_append: "requests (es @ fs) = requests es @ requests fs"
  by (induction es rule: requests.induct) simp_all

lemma print_simps:
  "files (print line w) = files w"
  "writable (print line w) = writable w"
  "trace (print line w) = trace w @ [Printed line]"
  by (simp_all add: print_def)

lemma text_to_speech_falsy:
  "\<not> truthy text \<Longrightarrow>
     text_to_speech E text output_arg w = (Inl (ValueError ''Text cannot be empty''), w)"
  by (simp add: text_to_speech_def)

lemma text_to_speech_refused:
  "truthy text \<Longrightarrow> E text ''en'' = Inl e \<Longrightarrow>
     text_to_speech E text (Some p) w = (Inl e, w\<lparr>trace := trace w @ [Synthesize text ''en'']\<rparr>)"
  by (simp add: text_to_speech_def gTTS_def)

lemma text_to_speech_unwritable:
  "truthy text \<Longrightarrow> E text ''en'' = Inr tts \<Longrightarrow> \<not> writable w p \<Longrightarrow>
     text_to_speech E text (Some p) w =
       (Inl (OSError p), w\<lparr>trace := trace w @ [Synthesize text ''en'']\<rparr>)"
  by (simp add: text_to_speech_def gTTS_def save_def)

lemma text_to_speech_audio:
  "truthy text \<Longrightarrow> E text ''en'' = Inr (Audio bs) \<Longrightarrow> writable w p \<Longrightarrow>
     text_to_speech E text (Some p) w =
       (Inr (PyBool True),
        w\<lparr>files := (files w)(p \<mapsto> bs), trace := trace w @ [Synthesize text ''en'', Opened p]\<rparr>)"
  by (simp add: text_to_speech_def gTTS_def save_def)

lemma text_to_speech_broken:
  "truthy text \<Longrightarrow> E text ''en'' = Inr (Broken bs e) \<Longrightarrow> writable w p \<Longrightarrow>
     text_to_speech E text (Some p) w =
       (Inl e,
        w\<lparr>files := (files w)(p \<mapsto> bs), trace := trace w @ [Synthesize text ''en'', Opened p]\<rparr>)"
  by (simp add: text_to_speech_def gTTS_def save_def)

lemma text_to_speech_default:
  "text_to_speech E text None w = text_to_speech E text (Some ''output.mp3'') w"
  by (simp add: text_to_speech_def)

lemma text_to_speech_writable:
  "writable (snd (text_to_speech E text out w)) = writable w"
  by (simp add: text_to_speech_def gTTS_def save_def Let_def
           split: sum.splits synthesis.splits prod.splits)

lemma text_to_speech_files:
  "files (snd (text_to_speech E text (Some p) w)) = files w
   \<or> (\<exists>bs. files (snd (text_to_speech E text (Some p) w)) = (files w)(p \<mapsto> bs))"
  by (auto simp add: text_to_speech_def gTTS_def save_def Let_def
           split: sum.splits synthesis.splits prod.splits)

lemma main_uncaught:
  "text_to_speech E (PyStr s) (Some (case out of None \<Rightarrow> ''output.mp3'' | Some v \<Rightarrow> v))
       (print (start_message s) w) = (Inl e, w2)
   \<Longrightarrow> main E (Accepted s out) w = (Uncaught e, w2)"
  by (simp add: main_def parse_args_def Let_def)

lemma main_returned:
  "text_to_speech E (PyStr s) (Some (case out of None \<Rightarrow> ''output.mp3'' | Some v \<Rightarrow> v))
       (print (start_message s) w) = (Inr r, w2)
   \<Longrightarrow> main E (Accepted s out) w =
         (Returned, print (saved_message (case out of None \<Rightarrow> ''output.mp3'' | Some v \<Rightarrow> v)) w2)"
  by (simp add: main_def parse_args_def Let_def)

lemma main_audio:
  assumes "s \<noteq> []" and "E (PyStr s) ''en'' = Inr (Audio bs)"
    and "p = (case out of None \<Rightarrow> ''output.mp3'' | Some v \<Rightarrow> v)" and "writable w p"
  shows "main E (Accepted s out) w =
           (Returned,
            w\<lparr>files := (files w)(p \<mapsto> bs),
              trace := trace w @ [Printed (start_message s), Synthesize (PyStr s) ''en'',
                                  Opened p, Printed (saved_message p)]\<rparr>)"
proof -
  have "text_to_speech E (PyStr s) (Some p) (print (start_message s) w) =
          (Inr (PyBool True),
           w\<lparr>files := (files w)(p \<mapsto> bs),
             trace := trace w @ [Printed (start_message s), Synthesize (PyStr s) ''en'', Opened p]\<rparr>)"
    using assms by (simp add: text_to_speech_audio print_def)
  with assms(3) show ?thesis
    using main_returned [of E s out w "PyBool True"] by (simp add: print_def)
qed

lemma text_to_speech_trace_grows:
  "truthy text \<Longrightarrow> length (trace w) < length (trace (snd (text_to_speech E text out w)))"
  by (simp add: text_to_speech_def gTTS_def save_def Let_def
           split: sum.splits synthesis.splits prod.splits)

lemma text_to_speech_requests:
  "truthy text \<Longrightarrow>
     requests (trace (snd (text_to_speech E text out w))) = requests (trace w) @ [(text, ''en'')]"
  by (simp add: text_to_speech_def gTTS_def save_def Let_def requests_append
           split: sum.splits synthesis.splits prod.splits)

section \<open>The Converter rejects empty text\<close>

text \<open>
  C1. For every output path (given or left out), on every engine and in every world,
  \<^verbatim>\<open>text_to_speech\<close> with the empty string raises \<^verbatim>\<open>ValueError\<close>, and the world it
  leaves is the world it found: no request to the engine is in the trace, and no file
  is created or changed.
\<close>

theorem empty_text_raises_before_engine:
  "text_to_speech E (PyStr '''') output_arg w = (Inl (ValueError ''Text cannot be empty''), w)"
  by (simp add: text_to_speech_def)

section \<open>A successful call writes the audio\<close>

text \<open>
  C2. For every non-empty string \<open>s\<close> and every writable path \<open>p\<close>, when the engine
  succeeds, that is, answers the request for \<open>s\<close> in English with a complete audio
  stream, which as MP3 audio is not empty, \<^verbatim>\<open>text_to_speech\<close> returns \<^verbatim>\<open>True\<close> and
  leaves at \<open>p\<close> a file holding that stream, of more than 0 bytes.
\<close>

theorem nonempty_text_writes_nonempty_file:
  assumes "s \<noteq> []" and "writable w p"
    and "E (PyStr s) ''en'' = Inr (Audio bs)" and "bs \<noteq> []"
  shows "fst (text_to_speech E (PyStr s) (Some p) w) = Inr (PyBool True)
       \<and> files (snd (text_to_speech E (PyStr s) (Some p) w)) p = Some bs
       \<and> 0 < length bs"
  using assms by (simp add: text_to_speech_audio)

theorem nonempty_text_writes_nonempty_file_witness:
  "fst (text_to_speech sample_engine (PyStr ''hi'') (Some ''out.mp3'') sample_world)
     = Inr (PyBool True)
   \<and> files (snd (text_to_speech sample_engine (PyStr ''hi'') (Some ''out.mp3'') sample_world))
        ''out.mp3'' = Some [0xFF, 0xF3, 0x44, 0xC4]
   \<and> 0 < length [0xFF, 0xF3, 0x44, 0xC4 :: byte]"
  using nonempty_text_writes_nonempty_file
    [of "''hi''" sample_world "''out.mp3''" sample_engine "[0xFF, 0xF3, 0x44, 0xC4]"]
  by (simp add: sample_engine_def sample_world_def)

section \<open>A second call overwrites the first\<close>

text \<open>
  C3. For every truthy text and every path, two calls of \<^verbatim>\<open>text_to_speech\<close> with the
  same text and path leave the same files as one call. The second call overwrites
  whatever the first one wrote: when it succeeds on a writable path, the files are
  the original ones with the second call's stream at the path, whatever the engine
  \<open>E0\<close> answered to the first call.
\<close>

theorem second_call_overwrites_first:
  assumes "truthy text"
  shows "files (snd (text_to_speech E text (Some p) (snd (text_to_speech E text (Some p) w))))
           = files (snd (text_to_speech E text (Some p) w))
       \<and> (writable w p \<longrightarrow> E text ''en'' = Inr (Audio bs) \<longrightarrow>
            files (snd (text_to_speech E text (Some p) (snd (text_to_speech E0 text (Some p) w))))
              = (files w)(p \<mapsto> bs))"
proof
  show "files (snd (text_to_speech E text (Some p) (snd (text_to_speech E text (Some p) w))))
           = files (snd (text_to_speech E text (Some p) w))"
  proof (cases "E text ''en''")
    case (Inl e)
    with assms show ?thesis by (simp add: text_to_speech_refused)
  next
    case (Inr tts)
    show ?thesis
    proof (cases "writable w p")
      case False
      with assms Inr show ?thesis by (simp add: text_to_speech_unwritable)
    next
      case True
      with assms Inr show ?thesis
        by (cases tts) (simp_all add: text_to_speech_audio text_to_speech_broken)
    qed
  qed
next
  let ?w1 = "snd (text_to_speech E0 text (Some p) w)"
  show "writable w p \<longrightarrow> E text ''en'' = Inr (Audio bs) \<longrightarrow>
          files (snd (text_to_speech E text (Some p) ?w1)) = (files w)(p \<mapsto> bs)"
  proof (intro impI)
    assume wr: "writable w p" and au: "E text ''en'' = Inr (Audio bs)"
    from wr have "writable ?w1 p"
      by (simp add: text_to_speech_writable)
    with assms au
    have "files (snd (text_to_speech E text (Some p) ?w1)) = (files ?w1)(p \<mapsto> bs)"
      by (simp add: text_to_speech_audio)
    moreover have "(files ?w1)(p \<mapsto> bs) = (files w)(p \<mapsto> bs)"
      using text_to_speech_files [of E0 "text" p w] by auto
    ultimately show "files (snd (text_to_speech E text (Some p) ?w1)) = (files w)(p \<mapsto> bs)"
      by simp
  qed
qed

theorem second_call_overwrites_first_witness:
  "truthy (PyStr ''hi'') \<and> writable sample_world ''out.mp3''
   \<and> sample_engine (PyStr ''hi'') ''en'' = Inr (Audio [0xFF, 0xF3, 0x44, 0xC4])
   \<and> files (snd (text_to_speech sample_engine (PyStr ''hi'') (Some ''out.mp3'')
        (snd (text_to_speech sample_engine (PyStr ''hi'') (Some ''out.mp3'') sample_world))))
       = files (snd (text_to_speech sample_engine (PyStr ''hi'') (Some ''out.mp3'') sample_world))
   \<and> files (snd (text_to_speech sample_engine (PyStr ''hi'') (Some ''out.mp3'')
        (snd (text_to_speech (\<lambda>t l. Inr (Audio [0x00])) (PyStr ''hi'') (Some ''out.mp3'')
               sample_world))))
       = [''out.mp3'' \<mapsto> [0xFF, 0xF3, 0x44, 0xC4]]"
proof -
  have t: "truthy (PyStr ''hi'')" by simp
  have w: "writable sample_world ''out.mp3''" by (simp add: sample_world_def)
  have a: "sample_engine (PyStr ''hi'') ''en'' = Inr (Audio [0xFF, 0xF3, 0x44, 0xC4])"
    by (simp add: sample_engine_def)
  have f: "files sample_world = Map.empty" by (simp add: sample_world_def)
  from second_call_overwrites_first
         [OF t, of sample_engine "''out.mp3''" sample_world "[0xFF, 0xF3, 0x44, 0xC4]"
            "\<lambda>t l. Inr (Audio [0x00])"] t w a f
  show ?thesis by simp
qed

section \<open>Errors of the engine are not handled\<close>

text \<open>
  C4. When the engine raises \<open>e\<close> for a non-empty text, either by refusing the request
  or by breaking off the stream it writes, \<^verbatim>\<open>text_to_speech\<close> raises the same \<open>e\<close>,
  \<^verbatim>\<open>main\<close> ends with \<open>e\<close> uncaught, and the exit status of the process is not 0.
\<close>

theorem engine_error_propagates:
  assumes "s \<noteq> []"
    and "E (PyStr s) ''en'' = Inl e \<or> (writable w p \<and> E (PyStr s) ''en'' = Inr (Broken bs e))"
  shows "fst (text_to_speech E (PyStr s) (Some p) w) = Inl e
       \<and> fst (main E (Accepted s (Some p)) w) = Uncaught e
       \<and> exit_status (fst (main E (Accepted s (Some p)) w)) \<noteq> 0"
proof -
  have conv: "fst (text_to_speech E (PyStr s) (Some p) w') = Inl e"
    if "writable w' = writable w" for w'
    using assms that by (auto simp add: text_to_speech_refused text_to_speech_broken)
  have "fst (text_to_speech E (PyStr s) (Some p) (print (start_message s) w)) = Inl e"
    by (rule conv) (simp add: print_simps)
  then obtain w2 where
    "text_to_speech E (PyStr s) (Some p) (print (start_message s) w) = (Inl e, w2)"
    by (cases "text_to_speech E (PyStr s) (Some p) (print (start_message s) w)") simp
  then have "main E (Accepted s (Some p)) w = (Uncaught e, w2)"
    using main_uncaught [of E s "Some p" w e w2] by simp
  with conv [of w] show ?thesis by (simp add: exit_status_def)
qed

theorem engine_error_propagates_witness:
  "''cut'' \<noteq> [] \<and> writable sample_world ''out.mp3''
   \<and> sample_engine (PyStr ''cut'') ''en''
       = Inr (Broken [0xFF] (OtherError ''gTTSError'' ''Connection error''))
   \<and> fst (text_to_speech sample_engine (PyStr ''cut'') (Some ''out.mp3'') sample_world)
       = Inl (OtherError ''gTTSError'' ''Connection error'')
   \<and> fst (main sample_engine (Accepted ''cut'' (Some ''out.mp3'')) sample_world)
       = Uncaught (OtherError ''gTTSError'' ''Connection error'')
   \<and> exit_status (fst (main sample_engine (Accepted ''cut'' (Some ''out.mp3'')) sample_world))
       \<noteq> 0"
proof -
  have n: "''cut'' \<noteq> []" by simp
  have w: "writable sample_world ''out.mp3''" by (simp add: sample_world_def)
  have a: "sample_engine (PyStr ''cut'') ''en''
             = Inr (Broken [0xFF] (OtherError ''gTTSError'' ''Connection error''))"
    by (simp add: sample_engine_def)
  from engine_error_propagates
         [of "''cut''" sample_engine "OtherError ''gTTSError'' ''Connection error''"
             sample_world "''out.mp3''" "[0xFF]"] n w a
  show ?thesis by blast
qed

section \<open>The return value\<close>

text \<open>
  C5. Whatever the engine, the text, the path and the world, a call of
  \<^verbatim>\<open>text_to_speech\<close> that returns a value returns \<^verbatim>\<open>True\<close>: no other value, and in
  particular not \<^verbatim>\<open>False\<close>, is ever returned.
\<close>

theorem returns_only_True:
  assumes "fst (text_to_speech E text out w) = Inr v"
  shows "v = PyBool True"
  using assms
  by (simp add: text_to_speech_def Let_def split: if_splits prod.splits sum.splits)

theorem returns_only_True_witness:
  "fst (text_to_speech sample_engine (PyStr ''hi'') (Some ''out.mp3'') sample_world)
     = Inr (PyBool True)
   \<and> PyBool True \<noteq> PyBool False"
proof -
  have "\<exists>v. fst (text_to_speech sample_engine (PyStr ''hi'') (Some ''out.mp3'') sample_world)
              = Inr v"
    by (simp add: text_to_speech_audio sample_engine_def sample_world_def)
  then obtain v where
    r: "fst (text_to_speech sample_engine (PyStr ''hi'') (Some ''out.mp3'') sample_world) = Inr v"
    by blast
  from returns_only_True [OF r] r show ?thesis by simp
qed

section \<open>The language is English\<close>

text \<open>
  C6. For every text, path, engine and world, the requests \<^verbatim>\<open>text_to_speech\<close> adds to
  those already made are: none when the text is falsy, and otherwise exactly one,
  for this text and the language code \<^verbatim>\<open>en\<close>. No argument of the call enters the
  language code.
\<close>

theorem language_fixed_to_en:
  "requests (trace (snd (text_to_speech E text out w)))
     = requests (trace w) @ (if truthy text then [(text, ''en'')] else [])"
  by (simp add: text_to_speech_def gTTS_def save_def Let_def requests_append
           split: sum.splits synthesis.splits prod.splits)

theorem language_fixed_to_en_witness:
  "requests (trace (snd (text_to_speech sample_engine (PyStr ''bonjour'') (Some ''out.mp3'')
      sample_world))) = [(PyStr ''bonjour'', ''en'')]"
  using language_fixed_to_en [of sample_engine "PyStr ''bonjour''" "Some ''out.mp3''" sample_world]
  by (simp add: sample_world_def)

section \<open>The default output path\<close>

text \<open>
  C7. A call of \<^verbatim>\<open>text_to_speech\<close> without output path is the call with
  \<^verbatim>\<open>output.mp3\<close>; a command line without \<^verbatim>\<open>-o\<close> is parsed to the output
  \<^verbatim>\<open>output.mp3\<close> and runs as the one with \<^verbatim>\<open>-o output.mp3\<close>; and when the engine
  succeeds and \<^verbatim>\<open>output.mp3\<close> is writable, both write the audio to \<^verbatim>\<open>output.mp3\<close>.
\<close>

theorem default_output_path:
  "text_to_speech E text None w = text_to_speech E text (Some ''output.mp3'') w
   \<and> parse_args (Accepted s None) = Inr \<lparr>arg_text = s, arg_output = ''output.mp3''\<rparr>
   \<and> main E (Accepted s None) w = main E (Accepted s (Some ''output.mp3'')) w
   \<and> (truthy text \<longrightarrow> writable w ''output.mp3'' \<longrightarrow> E text ''en'' = Inr (Audio bs) \<longrightarrow>
        files (snd (text_to_speech E text None w)) = (files w)(''output.mp3'' \<mapsto> bs))
   \<and> (s \<noteq> [] \<longrightarrow> writable w ''output.mp3'' \<longrightarrow> E (PyStr s) ''en'' = Inr (Audio bs) \<longrightarrow>
        files (snd (main E (Accepted s None) w)) = (files w)(''output.mp3'' \<mapsto> bs))"
proof (intro conjI impI)
  show "text_to_speech E text None w = text_to_speech E text (Some ''output.mp3'') w"
    by (rule text_to_speech_default)
  show "parse_args (Accepted s None) = Inr \<lparr>arg_text = s, arg_output = ''output.mp3''\<rparr>"
    by (simp add: parse_args_def)
  show "main E (Accepted s None) w = main E (Accepted s (Some ''output.mp3'')) w"
    by (simp add: main_def parse_args_def)
next
  assume "truthy text" "writable w ''output.mp3''" "E text ''en'' = Inr (Audio bs)"
  then show "files (snd (text_to_speech E text None w)) = (files w)(''output.mp3'' \<mapsto> bs)"
    by (simp add: text_to_speech_default text_to_speech_audio)
next
  assume "s \<noteq> []" "writable w ''output.mp3''" "E (PyStr s) ''en'' = Inr (Audio bs)"
  then show "files (snd (main E (Accepted s None) w)) = (files w)(''output.mp3'' \<mapsto> bs)"
    using main_audio [of s E bs "''output.mp3''" None w] by simp
qed

theorem default_output_path_witness:
  "truthy (PyStr ''hi'') \<and> writable sample_world ''output.mp3''
   \<and> sample_engine (PyStr ''hi'') ''en'' = Inr (Audio [0xFF, 0xF3, 0x44, 0xC4])
   \<and> files (snd (text_to_speech sample_engine (PyStr ''hi'') None sample_world))
        = (files sample_world)(''output.mp3'' \<mapsto> [0xFF, 0xF3, 0x44, 0xC4])
   \<and> files (snd (main sample_engine (Accepted ''hi'' None) sample_world))
        = (files sample_world)(''output.mp3'' \<mapsto> [0xFF, 0xF3, 0x44, 0xC4])"
proof -
  have t: "truthy (PyStr ''hi'')" and n: "''hi'' \<noteq> []" by simp_all
  have w: "writable sample_world ''output.mp3''" by (simp add: sample_world_def)
  have a: "sample_engine (PyStr ''hi'') ''en'' = Inr (Audio [0xFF, 0xF3, 0x44, 0xC4])"
    by (simp add: sample_engine_def)
  from default_output_path
         [of sample_engine "PyStr ''hi''" sample_world "''hi''" "[0xFF, 0xF3, 0x44, 0xC4]"] t n w a
  show ?thesis by blast
qed

section \<open>The messages of the command line\<close>

text \<open>
  C8. For every run of \<^verbatim>\<open>main\<close> that returns, the command line was accepted and the
  run added to the trace, in this order: the start message, which holds the text
  between quotes; the request to the engine; the opening of the output file; and the
  completion message, which holds the output path between quotes.
\<close>

theorem cli_success_messages:
  assumes "fst (main E argv w) = Returned"
  shows "case parse_args argv of
           Inl code \<Rightarrow> False
         | Inr args \<Rightarrow>
             trace (snd (main E argv w)) =
               trace w @ [Printed (start_message (arg_text args)),
                          Synthesize (PyStr (arg_text args)) ''en'',
                          Opened (arg_output args),
                          Printed (saved_message (arg_output args))]
             \<and> start_message (arg_text args)
                 = ''Converting text to speech: '' @ [CHR 0x27] @ arg_text args @ [CHR 0x27]
             \<and> saved_message (arg_output args)
                 = ''Speech saved to '' @ [CHR 0x27] @ arg_output args @ [CHR 0x27]"
  using assms
  by (auto simp add: main_def Let_def text_to_speech_def gTTS_def save_def print_simps
        start_message_def saved_message_def
        split: sum.splits prod.splits if_splits synthesis.splits)

theorem cli_success_messages_witness:
  "fst (main sample_engine (Accepted ''hi'' (Some ''out.mp3'')) sample_world) = Returned
   \<and> trace (snd (main sample_engine (Accepted ''hi'' (Some ''out.mp3'')) sample_world)) =
       [Printed (''Converting text to speech: '' @ [CHR 0x27] @ ''hi'' @ [CHR 0x27]),
        Synthesize (PyStr ''hi'') ''en'',
        Opened ''out.mp3'',
        Printed (''Speech saved to '' @ [CHR 0x27] @ ''out.mp3'' @ [CHR 0x27])]"
proof -
  have r: "fst (main sample_engine (Accepted ''hi'' (Some ''out.mp3'')) sample_world) = Returned"
    by (simp add: main_audio sample_engine_def sample_world_def)
  have t: "trace sample_world = []" by (simp add: sample_world_def)
  from cli_success_messages [OF r] r t show ?thesis
    by (simp add: parse_args_def)
qed

section \<open>Which texts are rejected\<close>

text \<open>
  C9. \<^verbatim>\<open>text_to_speech\<close> raises its \<^verbatim>\<open>ValueError\<close> with the world untouched exactly
  when the text is falsy. For a truthy text the check raises nothing: the request is
  sent to the engine, and the outcome is the engine's alone. The call returns
  \<^verbatim>\<open>True\<close> when the stream is complete and the path writable, and an exception it
  raises is the one the engine refused with, the one the stream broke off with, or
  the \<^verbatim>\<open>OSError\<close> of the path. In particular every string of at least one
  character, a blank included, is truthy, is not rejected, and is sent to the engine.
\<close>

theorem validation_error_iff_falsy:
  "(text_to_speech E text out w = (Inl (ValueError ''Text cannot be empty''), w)
      \<longleftrightarrow> \<not> truthy text)
   \<and> (truthy text \<longrightarrow>
        fst (text_to_speech E text out w) =
          (case E text ''en'' of
             Inl e \<Rightarrow> Inl e
           | Inr tts \<Rightarrow>
               if \<not> writable w (case out of None \<Rightarrow> ''output.mp3'' | Some p \<Rightarrow> p)
               then Inl (OSError (case out of None \<Rightarrow> ''output.mp3'' | Some p \<Rightarrow> p))
               else (case tts of Audio bs \<Rightarrow> Inr (PyBool True) | Broken bs e \<Rightarrow> Inl e))
        \<and> (\<forall>e. fst (text_to_speech E text out w) = Inl e \<longrightarrow>
               E text ''en'' = Inl e
               \<or> (\<exists>bs. E text ''en'' = Inr (Broken bs e))
               \<or> e = OSError (case out of None \<Rightarrow> ''output.mp3'' | Some p \<Rightarrow> p))
        \<and> requests (trace (snd (text_to_speech E text out w)))
            = requests (trace w) @ [(text, ''en'')])
   \<and> (s \<noteq> [] \<longrightarrow>
        truthy (PyStr s)
        \<and> text_to_speech E (PyStr s) out w \<noteq> (Inl (ValueError ''Text cannot be empty''), w)
        \<and> requests (trace (snd (text_to_speech E (PyStr s) out w)))
            = requests (trace w) @ [(PyStr s, ''en'')])"
proof -
  let ?p = "case out of None \<Rightarrow> ''output.mp3'' | Some p \<Rightarrow> p"
  have reached: "text_to_speech E t out w \<noteq> (Inl (ValueError ''Text cannot be empty''), w)"
    if "truthy t" for t
  proof
    assume "text_to_speech E t out w = (Inl (ValueError ''Text cannot be empty''), w)"
    then have "snd (text_to_speech E t out w) = w"
      by simp
    with text_to_speech_trace_grows [OF that, of w E out] show False
      by simp
  qed
  then have iff: "text_to_speech E text out w = (Inl (ValueError ''Text cannot be empty''), w)
      \<longleftrightarrow> \<not> truthy text"
    using text_to_speech_falsy [of "text" E out w] by blast
  have result: "fst (text_to_speech E text out w) =
          (case E text ''en'' of
             Inl e \<Rightarrow> Inl e
           | Inr tts \<Rightarrow>
               if \<not> writable w ?p then Inl (OSError ?p)
               else (case tts of Audio bs \<Rightarrow> Inr (PyBool True) | Broken bs e \<Rightarrow> Inl e))"
    if "truthy text"
    using that
    by (simp add: text_to_speech_def gTTS_def save_def Let_def
          split: sum.splits synthesis.splits)
  have origin: "E text ''en'' = Inl e
               \<or> (\<exists>bs. E text ''en'' = Inr (Broken bs e)) \<or> e = OSError ?p"
    if "truthy text" and "fst (text_to_speech E text out w) = Inl e" for e
    using that(2) result [OF that(1)]
    by (auto split: sum.splits synthesis.splits if_splits)
  have strings: "truthy (PyStr s)
        \<and> text_to_speech E (PyStr s) out w \<noteq> (Inl (ValueError ''Text cannot be empty''), w)
        \<and> requests (trace (snd (text_to_speech E (PyStr s) out w)))
            = requests (trace w) @ [(PyStr s, ''en'')]" if "s \<noteq> []"
    using that reached [of "PyStr s"] by (simp add: text_to_speech_requests)
  from iff result origin strings show ?thesis
    by (simp add: text_to_speech_requests)
qed

theorem validation_error_iff_falsy_witness:
  "'' '' \<noteq> [] \<and> truthy (PyStr '' '') \<and> truthy (PyStr ''hi'')
   \<and> \<not> truthy PyNone
   \<and> text_to_speech sample_engine PyNone None sample_world
       = (Inl (ValueError ''Text cannot be empty''), sample_world)
   \<and> fst (text_to_speech sample_engine (PyStr ''hi'') None sample_world) = Inr (PyBool True)
   \<and> fst (text_to_speech sample_engine (PyStr '' '') None sample_world)
       = Inl (OtherError ''AssertionError'' ''No text to send to TTS API'')
   \<and> text_to_speech sample_engine (PyStr '' '') None sample_world
       \<noteq> (Inl (ValueError ''Text cannot be empty''), sample_world)
   \<and> requests (trace (snd (text_to_speech sample_engine (PyStr '' '') None sample_world)))
       = [(PyStr '' '', ''en'')]"
proof -
  have n: "'' '' \<noteq> []" and f: "\<not> truthy PyNone"
    and b: "truthy (PyStr '' '')" and h: "truthy (PyStr ''hi'')" by simp_all
  have t: "requests (trace sample_world) = []" by (simp add: sample_world_def)
  have wr: "writable sample_world ''output.mp3''" by (simp add: sample_world_def)
  have eb: "sample_engine (PyStr '' '') ''en''
              = Inl (OtherError ''AssertionError'' ''No text to send to TTS API'')"
    and eh: "sample_engine (PyStr ''hi'') ''en'' = Inr (Audio [0xFF, 0xF3, 0x44, 0xC4])"
    by (simp_all add: sample_engine_def)
  from validation_error_iff_falsy [of sample_engine PyNone None sample_world "'' ''"] n f t
  have falsy: "text_to_speech sample_engine PyNone None sample_world
       = (Inl (ValueError ''Text cannot be empty''), sample_world)
     \<and> text_to_speech sample_engine (PyStr '' '') None sample_world
       \<noteq> (Inl (ValueError ''Text cannot be empty''), sample_world)
     \<and> requests (trace (snd (text_to_speech sample_engine (PyStr '' '') None sample_world)))
       = [(PyStr '' '', ''en'')]"
    by simp
  from validation_error_iff_falsy [of sample_engine "PyStr '' ''" None sample_world "'' ''"] b eb
  have blank: "fst (text_to_speech sample_engine (PyStr '' '') None sample_world)
       = Inl (OtherError ''AssertionError'' ''No text to send to TTS API'')"
    by simp
  from validation_error_iff_falsy [of sample_engine "PyStr ''hi''" None sample_world "'' ''"] h eh wr
  have spoken: "fst (text_to_speech sample_engine (PyStr ''hi'') None sample_world)
       = Inr (PyBool True)"
    by simp
  from n f b h falsy blank spoken show ?thesis
    by blast
qed

section \<open>The start message comes before the check\<close>

text \<open>
  C10. When the text of an accepted command line is falsy, \<^verbatim>\<open>main\<close> still prints the
  start message, and nothing else happens: the run ends with the \<^verbatim>\<open>ValueError\<close> of
  the check uncaught and the exit status 1.
\<close>

theorem start_message_precedes_validation:
  assumes "\<not> truthy (PyStr s)"
  shows "main E (Accepted s out) w =
           (Uncaught (ValueError ''Text cannot be empty''),
            w\<lparr>trace := trace w @ [Printed (start_message s)]\<rparr>)
       \<and> exit_status (fst (main E (Accepted s out) w)) = 1"
  using assms main_uncaught [of E s out w "ValueError ''Text cannot be empty''"]
  by (simp add: text_to_speech_falsy print_def exit_status_def)

theorem start_message_precedes_validation_witness:
  "\<not> truthy (PyStr '''')
   \<and> main sample_engine (Accepted '''' (Some ''out.mp3'')) sample_world =
       (Uncaught (ValueError ''Text cannot be empty''),
        sample_world\<lparr>trace := [Printed (''Converting text to speech: '' @ [CHR 0x27, CHR 0x27])]\<rparr>)
   \<and> exit_status (fst (main sample_engine (Accepted '''' (Some ''out.mp3'')) sample_world)) = 1"
proof -
  have f: "\<not> truthy (PyStr '''')" by simp
  have t: "trace sample_world = []" by (simp add: sample_world_def)
  from start_message_precedes_validation [OF f, of sample_engine "Some ''out.mp3''" sample_world] f t
  show ?thesis by (simp add: start_message_def exit_status_def)
qed

end
